theory Spec2Isabelle
  imports Main "HOL-Library.AList" "HOL-Library.Sublist"
begin

section \<open>Library values the builder is written against\<close>

text \<open>
  A Go \<open>string\<close> and a \<open>[]byte\<close> are both sequences of bytes; \<^typ>\<open>string\<close> (a list of
  8-bit \<^typ>\<open>char\<close>) stands for both, so \<open>len\<close> is \<^const>\<open>length\<close> and counts bytes.
  An \<open>error\<close> is represented by the text its \<open>Error()\<close> method returns.
\<close>

type_synonym error = string

text \<open>
  \<open>url.Values\<close> and \<open>http.Header\<close> are \<open>map[string][]string\<close>. They are kept as
  association lists with one entry for each key, read through \<^const>\<open>map_of\<close>; the order of
  the entries stands for the (unspecified) order in which Go ranges over the map.
  \<open>Set\<close> stores a one-element slice, \<open>Add\<close> appends to the slice found under the key.
\<close>

type_synonym Values = "(string \<times> string list) list"

definition Values_Set :: "string \<Rightarrow> string \<Rightarrow> Values \<Rightarrow> Values" where
  "Values_Set key val v = AList.update key [val] v"

definition Values_Add :: "string \<Rightarrow> string \<Rightarrow> Values \<Rightarrow> Values" where
  "Values_Add key val v =
     AList.update key ((case map_of v key of None \<Rightarrow> [] | Some vs \<Rightarrow> vs) @ [val]) v"

text \<open>
  \<open>http.Header\<close> canonicalises the key of every access with
  \<open>textproto.CanonicalMIMEHeaderKey\<close>, which is taken as the parameter \<open>canon\<close>.
  \<open>Get\<close> returns the first value stored under the key, or the empty string.
\<close>

type_synonym Header = "(string \<times> string list) list"

definition Header_Set :: "(string \<Rightarrow> string) \<Rightarrow> string \<Rightarrow> string \<Rightarrow> Header \<Rightarrow> Header" where
  "Header_Set canon key val h = Values_Set (canon key) val h"

definition Header_Add :: "(string \<Rightarrow> string) \<Rightarrow> string \<Rightarrow> string \<Rightarrow> Header \<Rightarrow> Header" where
  "Header_Add canon key val h = Values_Add (canon key) val h"

definition Header_Get :: "(string \<Rightarrow> string) \<Rightarrow> string \<Rightarrow> Header \<Rightarrow> string" where
  "Header_Get canon key h =
     (case map_of h (canon key) of None \<Rightarrow> [] | Some [] \<Rightarrow> [] | Some (v # _) \<Rightarrow> v)"

text \<open>
  The write end of an \<open>io.Pipe\<close>: open, or closed. \<open>Close\<close> makes the reader see
  \<open>io.EOF\<close> once the data is drained, \<open>CloseWithError e\<close> makes it see \<open>e\<close>; the first
  close is the one that counts.
\<close>

datatype PipeWriter = Open | Closed "error option"




text \<open>
  The \<open>io.Reader\<close> values a body can be: the readers the builder creates itself, any
  reader of the caller (\<open>'r\<close>), and \<open>http.NoBody\<close>, the reader of no bytes that \<open>net/http\<close>
  puts in a request. A pipe reader carries the state in which its producer leaves the
  write end.
\<close>

datatype 'r Reader =
    BytesReader string
  | StringsReader string
  | PipeReader PipeWriter
  | CallerReader 'r
  | NoBody

datatype 'c Context = Background | WithContext 'c

record ('r, 'c) Request =
  req_Method :: string
  req_URL :: string
  req_Header :: Header
  req_Host :: string
  req_Body :: "'r Reader option"
  req_Context :: "'c Context"

text \<open>
  The \<open>*http.Response\<close> of the transport. \<open>res_Body\<close> is what \<open>ioutil.ReadAll\<close> makes of
  the body stream: the bytes, or a read error.
\<close>

record http_Response =
  StatusCode :: int
  res_Header :: Header
  res_Body :: "error + string"
  res_Request_URL :: string

text \<open>
  \<open>CheckRedirect\<close> of the shared \<open>*http.Client\<close>: \<open>nil\<close>, a function of the caller, or the
  closure that \<open>Do\<close> installs, which returns \<open>http.ErrUseLastResponse\<close>.
\<close>

datatype 'p CheckRedirect = NilCheckRedirect | CallerCheckRedirect 'p | UseLastResponse

text \<open>
  Everything outside the builder: the redirect policy of the client, and the world \<open>'w\<close> of
  the caller, on which the error sink, the hooks and the transport act.
\<close>

record ('p, 'w) state =
  client_CheckRedirect :: "'p CheckRedirect"
  world :: 'w

section \<open>request.go: the request builder\<close>

text \<open>
  The fields of \<open>ReqBuilder\<close>. \<open>http_method\<close> is the field \<open>method\<close> and \<open>ctx\<close> the
  field \<open>context\<close>. The field \<open>client\<close> points to the one client of the state.
\<close>

record ('r, 'c, 'w) ReqBuilder =
  baseURL :: string
  url :: string
  http_method :: string
  query :: Values
  headers :: Header
  noFollow :: bool
  body :: "'r Reader option"
  beforeRequest :: "(('r, 'c) Request \<Rightarrow> 'w \<Rightarrow> ('r, 'c) Request \<times> 'w) option"
  afterRequest :: "(('r, 'c) Request \<Rightarrow> http_Response option \<Rightarrow> error option \<Rightarrow> 'w \<Rightarrow> 'w) option"
  ctx :: "'c option"
  onError :: "error \<Rightarrow> 'w \<Rightarrow> 'w"

text \<open>
  Every method takes the builder and the state and returns them: the builder it returns is
  the receiver, updated in place in the source. A method that indexes its arguments returns
  \<open>None\<close> where the source panics. \<open>report\<close> is the call \<open>b.onError(err)\<close>.
\<close>

definition report :: "('r, 'c, 'w) ReqBuilder \<Rightarrow> error \<Rightarrow> ('p, 'w) state \<Rightarrow> ('p, 'w) state" where
  "report b err s = s\<lparr>world := onError b err (world s)\<rparr>"

definition NewReqBuilder :: "string \<Rightarrow> (error \<Rightarrow> 'w \<Rightarrow> 'w) \<Rightarrow> ('r, 'c, 'w) ReqBuilder" where
  "NewReqBuilder base sink =
     \<lparr>baseURL = base, url = [], http_method = [], query = [], headers = [], noFollow = False,
      body = None, beforeRequest = None, afterRequest = None, ctx = None, onError = sink\<rparr>"

definition Method ::
  "string \<Rightarrow> string \<Rightarrow> ('r, 'c, 'w) ReqBuilder \<Rightarrow> ('p, 'w) state \<Rightarrow> ('r, 'c, 'w) ReqBuilder \<times> ('p, 'w) state" where
  "Method m u b s = (b\<lparr>http_method := m, url := u\<rparr>, s)"

definition NoFollow ::
  "('r, 'c, 'w) ReqBuilder \<Rightarrow> ('p, 'w) state \<Rightarrow> ('r, 'c, 'w) ReqBuilder \<times> ('p, 'w) state" where
  "NoFollow b s = (b\<lparr>noFollow := True\<rparr>, s)"

text \<open>
  An index expression \<open>args[i]\<close> panics when \<open>i\<close> is out of range; \<open>None\<close> is the panic.
\<close>

definition index :: "'a list \<Rightarrow> nat \<Rightarrow> 'a option" where
  "index xs i = (if i < length xs then Some (xs ! i) else None)"

text \<open>
  The loop of \<open>Q\<close> (src/unnamed/part\_000, lines 67-80): \<open>keys\<close> is the map of the keys seen
  in this call, \<open>i\<close> runs while \<open>i < len(args)/2\<close>.
\<close>

function Q_loop :: "string list \<Rightarrow> nat \<Rightarrow> (string \<rightharpoonup> bool) \<Rightarrow> Values \<Rightarrow> Values option" where
  "Q_loop args i keys q =
     (if i < length args div 2 then
        (case index args (i * 2) of
           None \<Rightarrow> None
         | Some key \<Rightarrow>
            (case index args (i * 2 + 1) of
               None \<Rightarrow> None
             | Some val \<Rightarrow>
                Q_loop args (i + 1) (keys(key \<mapsto> True))
                  (if keys key \<noteq> None then Values_Add key val q else Values_Set key val q)))
      else Some q)"
  by pat_completeness auto
termination
  by (relation "measure (\<lambda>(args, i, keys, q). length args div 2 - i)") auto

declare Q_loop.simps [simp del]

definition Q ::
  "string list \<Rightarrow> ('r, 'c, 'w) ReqBuilder \<Rightarrow> ('p, 'w) state \<Rightarrow>
   (('r, 'c, 'w) ReqBuilder \<times> ('p, 'w) state) option" where
  "Q args b s =
     (case Q_loop args 0 Map.empty (query b) of
        None \<Rightarrow> None
      | Some q \<Rightarrow> Some (b\<lparr>query := q\<rparr>, s))"

text \<open>
  The older \<open>Q\<close> of src/request.go (lines 66-71) has no \<open>keys\<close> map: every pair is stored
  with \<open>Set\<close>.
\<close>

function Q_request_go_loop :: "string list \<Rightarrow> nat \<Rightarrow> Values \<Rightarrow> Values option" where
  "Q_request_go_loop args i q =
     (if i < length args div 2 then
        (case index args (i * 2) of
           None \<Rightarrow> None
         | Some key \<Rightarrow>
            (case index args (i * 2 + 1) of
               None \<Rightarrow> None
             | Some val \<Rightarrow> Q_request_go_loop args (i + 1) (Values_Set key val q)))
      else Some q)"
  by pat_completeness auto
termination
  by (relation "measure (\<lambda>(args, i, q). length args div 2 - i)") auto

declare Q_request_go_loop.simps [simp del]

definition Q_request_go ::
  "string list \<Rightarrow> ('r, 'c, 'w) ReqBuilder \<Rightarrow> ('p, 'w) state \<Rightarrow>
   (('r, 'c, 'w) ReqBuilder \<times> ('p, 'w) state) option" where
  "Q_request_go args b s =
     (case Q_request_go_loop args 0 (query b) of
        None \<Rightarrow> None
      | Some q \<Rightarrow> Some (b\<lparr>query := q\<rparr>, s))"

function Header_loop :: "(string \<Rightarrow> string) \<Rightarrow> string list \<Rightarrow> nat \<Rightarrow> Header \<Rightarrow> Header option" where
  "Header_loop canon args i h =
     (if i < length args div 2 then
        (case index args (i * 2) of
           None \<Rightarrow> None
         | Some key \<Rightarrow>
            (case index args (i * 2 + 1) of
               None \<Rightarrow> None
             | Some val \<Rightarrow> Header_loop canon args (i + 1) (Header_Set canon key val h)))
      else Some h)"
  by pat_completeness auto
termination
  by (relation "measure (\<lambda>(canon, args, i, h). length args div 2 - i)") auto

declare Header_loop.simps [simp del]

definition Header ::
  "(string \<Rightarrow> string) \<Rightarrow> string list \<Rightarrow> ('r, 'c, 'w) ReqBuilder \<Rightarrow> ('p, 'w) state \<Rightarrow>
   (('r, 'c, 'w) ReqBuilder \<times> ('p, 'w) state) option" where
  "Header canon args b s =
     (case Header_loop canon args 0 (headers b) of
        None \<Rightarrow> None
      | Some h \<Rightarrow> Some (b\<lparr>headers := h\<rparr>, s))"

definition Body ::
  "'r Reader \<Rightarrow> ('r, 'c, 'w) ReqBuilder \<Rightarrow> ('p, 'w) state \<Rightarrow> ('r, 'c, 'w) ReqBuilder \<times> ('p, 'w) state" where
  "Body reader b s = (b\<lparr>body := Some reader\<rparr>, s)"

function Form_loop :: "string list \<Rightarrow> nat \<Rightarrow> Values \<Rightarrow> Values option" where
  "Form_loop args i q =
     (if i < length args div 2 then
        (case index args (i * 2) of
           None \<Rightarrow> None
         | Some key \<Rightarrow>
            (case index args (i * 2 + 1) of
               None \<Rightarrow> None
             | Some val \<Rightarrow> Form_loop args (i + 1) (Values_Set key val q)))
      else Some q)"
  by pat_completeness auto
termination
  by (relation "measure (\<lambda>(args, i, q). length args div 2 - i)") auto

declare Form_loop.simps [simp del]

text \<open>\<open>Encode\<close> is \<open>url.Values.Encode\<close>, a parameter.\<close>

definition Form ::
  "(Values \<Rightarrow> string) \<Rightarrow> (string \<Rightarrow> string) \<Rightarrow> string list \<Rightarrow> ('r, 'c, 'w) ReqBuilder \<Rightarrow> ('p, 'w) state \<Rightarrow>
   (('r, 'c, 'w) ReqBuilder \<times> ('p, 'w) state) option" where
  "Form Encode canon args b s =
     (case Form_loop args 0 [] of
        None \<Rightarrow> None
      | Some q \<Rightarrow>
         (case Header canon [''Content-Type'', ''application/x-www-form-urlencoded''] b s of
            None \<Rightarrow> None
          | Some (b1, s1) \<Rightarrow> Some (Body (StringsReader (Encode q)) b1 s1)))"

text \<open>
  \<open>Marshal\<close> is \<open>json.Marshal\<close>, a parameter: it returns the bytes, or an error together with
  a \<open>nil\<close> slice, over which \<open>bytes.NewReader\<close> makes a reader of no bytes.
\<close>

definition ReqBuilder_JSON ::
  "('j \<Rightarrow> error + string) \<Rightarrow> (string \<Rightarrow> string) \<Rightarrow> 'j \<Rightarrow> ('r, 'c, 'w) ReqBuilder \<Rightarrow> ('p, 'w) state \<Rightarrow>
   (('r, 'c, 'w) ReqBuilder \<times> ('p, 'w) state) option" where
  "ReqBuilder_JSON Marshal canon j b s =
     (case Header canon [''Content-Type'', ''application/json''] b s of
        None \<Rightarrow> None
      | Some (b1, s1) \<Rightarrow>
         (case Marshal j of
            Inl err \<Rightarrow> Some (Body (BytesReader []) b1 (report b1 err s1))
          | Inr jsonBytes \<Rightarrow> Some (Body (BytesReader jsonBytes) b1 s1)))"





section \<open>response.go: the response wrapper\<close>

record ('r, 'c, 'w) Response =
  http_res :: http_Response
  Response_req :: "('r, 'c) Request"
  Response_onError :: "error \<Rightarrow> 'w \<Rightarrow> 'w"
  Response_Body :: string
  Response_URL :: string

definition NewResponse ::
  "http_Response \<Rightarrow> ('r, 'c) Request \<Rightarrow> (error \<Rightarrow> 'w \<Rightarrow> 'w) \<Rightarrow> ('p, 'w) state \<Rightarrow>
   ('r, 'c, 'w) Response option \<times> ('p, 'w) state" where
  "NewResponse res rq sink s =
     (case res_Body res of
        Inl err \<Rightarrow> (None, s\<lparr>world := sink err (world s)\<rparr>)
      | Inr bytes \<Rightarrow>
          (Some \<lparr>http_res = res, Response_req = rq, Response_onError = sink,
                 Response_Body = bytes, Response_URL = res_Request_URL res\<rparr>, s))"

text \<open>\<open>r.err\<close>: \<open>fmt.Errorf("%s %s: %s", r.req.Method, r.req.URL.String(), err)\<close> goes to the sink.\<close>

definition Response_err :: "('r, 'c, 'w) Response \<Rightarrow> error \<Rightarrow> ('p, 'w) state \<Rightarrow> ('p, 'w) state" where
  "Response_err r err s =
     s\<lparr>world := Response_onError r
        (req_Method (Response_req r) @ '' '' @ req_URL (Response_req r) @ '': '' @ err) (world s)\<rparr>"

definition bodyExcerpt :: "('r, 'c, 'w) Response \<Rightarrow> string" where
  "bodyExcerpt r =
     (if length (Response_Body r) > 100 then take 100 (Response_Body r) @ ''...''
      else Response_Body r)"

text \<open>The verbs of \<open>fmt\<close>: \<open>%d\<close> of an \<open>int\<close>, and \<open>%v\<close> of an \<open>[]int\<close>, as in \<open>[200 201]\<close>.\<close>

definition digit :: "nat \<Rightarrow> char" where
  "digit n = ''0123456789'' ! n"

fun fmt_nat :: "nat \<Rightarrow> string" where
  "fmt_nat n = (if n < 10 then [digit n] else fmt_nat (n div 10) @ [digit (n mod 10)])"

declare fmt_nat.simps [simp del]

definition fmt_d :: "int \<Rightarrow> string" where
  "fmt_d i = (if i < 0 then ''-'' @ fmt_nat (nat (- i)) else fmt_nat (nat i))"

fun fmt_elems :: "int list \<Rightarrow> string" where
  "fmt_elems [] = []"
| "fmt_elems [x] = fmt_d x"
| "fmt_elems (x # y # ys) = fmt_d x @ '' '' @ fmt_elems (y # ys)"

definition fmt_v :: "int list \<Rightarrow> string" where
  "fmt_v xs = ''['' @ fmt_elems xs @ '']''"

fun Status_loop :: "int \<Rightarrow> int list \<Rightarrow> bool \<Rightarrow> bool" where
  "Status_loop code [] ok = ok"
| "Status_loop code (status # statuses) ok =
     Status_loop code statuses (if code = status then True else ok)"

definition Status ::
  "int list \<Rightarrow> ('r, 'c, 'w) Response \<Rightarrow> ('p, 'w) state \<Rightarrow> ('r, 'c, 'w) Response \<times> ('p, 'w) state" where
  "Status statuses r s =
     (if length statuses > 0 then
        (if \<not> Status_loop (StatusCode (http_res r)) statuses False then
           (r, Response_err r
                 (''expected status '' @ fmt_v statuses @ '' got '' @
                  fmt_d (StatusCode (http_res r)) @ '': '' @ bodyExcerpt r) s)
         else (r, s))
      else (r, s))"

text \<open>
  \<open>Unmarshal\<close> is \<open>json.Unmarshal\<close>, a parameter: from the body and the target it gives the
  target filled in, or an error. The \<open>nil\<close> that \<open>JSON\<close> returns is \<open>None\<close>.
\<close>

definition Response_JSON ::
  "(string \<Rightarrow> 'j \<Rightarrow> error + 'j) \<Rightarrow> (string \<Rightarrow> string) \<Rightarrow> 'j \<Rightarrow> ('r, 'c, 'w) Response \<Rightarrow> ('p, 'w) state \<Rightarrow>
   'j option \<times> ('p, 'w) state" where
  "Response_JSON Unmarshal canon j r s =
     (let contentType = Header_Get canon ''Content-Type'' (res_Header (http_res r));
          s1 = (if \<not> prefix ''application/json'' contentType then
                  Response_err r
                    (''Content-Type is not application/json, got '' @ contentType @ '': '' @
                     bodyExcerpt r) s
                else s)
      in case Unmarshal (Response_Body r) j of
           Inl err \<Rightarrow> (None, Response_err r err s1)
         | Inr j' \<Rightarrow> (Some j', s1))"

section \<open>request.go: execution\<close>

text \<open>
  What \<open>client.Do\<close> returns: an error, with which a response can come (a failing redirect
  policy), or a response and no error.
\<close>

datatype dispatch = Failed "http_Response option" error | Succeeded http_Response

text \<open>
  What the sending of a request by the client comes to, before the client makes its
  error of it: a failure, with the response if there is one, the URL of the last request
  tried (the URL of the request itself when no redirect was followed) and the cause; or a
  response.
\<close>

datatype sent = SendFailed "http_Response option" string error | SendResponse http_Response

text \<open>
  The parts of \<open>net/url\<close>, \<open>net/http\<close> and \<open>strconv\<close> that \<open>Do\<close> calls, as parameters. \<open>'u\<close> is a
  parsed URL. \<open>NewRequest_error\<close> says whether \<open>http.NewRequestWithContext\<close> refuses the
  method or the URL, \<open>URL_Host\<close> is the host of a URL, \<open>Quote\<close> is \<open>strconv.Quote\<close>, the verb
  \<open>%q\<close>. \<open>send\<close> is the transport with the redirects that the client follows: it sees the
  redirect policy the client has at the moment of the call, the request and the world.
\<close>

record ('u, 'r, 'c, 'p, 'w) net =
  url_Parse :: "string \<Rightarrow> error + 'u"
  url_Query :: "'u \<Rightarrow> Values"
  url_set_RawQuery :: "string \<Rightarrow> 'u \<Rightarrow> 'u"
  url_String :: "'u \<Rightarrow> string"
  Values_Encode :: "Values \<Rightarrow> string"
  NewRequest_error :: "'c Context \<Rightarrow> string \<Rightarrow> string \<Rightarrow> error option"
  URL_Host :: "string \<Rightarrow> string"
  CanonicalMIMEHeaderKey :: "string \<Rightarrow> string"
  Quote :: "string \<Rightarrow> string"
  send :: "'p CheckRedirect \<Rightarrow> ('r, 'c) Request \<Rightarrow> 'w \<Rightarrow> sent \<times> 'w"

text \<open>
  \<open>http.NewRequestWithContext\<close>: an error, or the request made of its arguments, with no
  header yet. An empty method stands for \<open>GET\<close>, and a \<open>*bytes.Reader\<close> or \<open>*strings.Reader\<close>
  with nothing to read is replaced by \<open>http.NoBody\<close>.
\<close>

definition NewRequest_body :: "'r Reader option \<Rightarrow> 'r Reader option" where
  "NewRequest_body rd =
     (case rd of
        Some (BytesReader bs) \<Rightarrow> (if length bs = 0 then Some NoBody else rd)
      | Some (StringsReader str) \<Rightarrow> (if length str = 0 then Some NoBody else rd)
      | _ \<Rightarrow> rd)"

definition NewRequestWithContext ::
  "('u, 'r, 'c, 'p, 'w) net \<Rightarrow> 'c Context \<Rightarrow> string \<Rightarrow> string \<Rightarrow> 'r Reader option \<Rightarrow>
   error + ('r, 'c) Request" where
  "NewRequestWithContext n c m u rd =
     (let m' = (if m = [] then ''GET'' else m) in
      case NewRequest_error n c m' u of
        Some err \<Rightarrow> Inl err
      | None \<Rightarrow>
          Inr \<lparr>req_Method = m', req_URL = u, req_Header = [], req_Host = URL_Host n u,
               req_Body = NewRequest_body rd, req_Context = c\<rparr>)"

text \<open>
  The error of \<open>(*http.Client).Do\<close> is always a \<open>*url.Error\<close>, whose text is
  \<open>fmt.Sprintf("%s %q: %s", e.Op, e.URL, e.Err)\<close>. Its \<open>Op\<close> is made of the method of the
  request by \<open>urlErrorOp\<close>: \<open>Get\<close> for the empty method, else the first byte followed by the
  rest in lower case (the method as it is when the rest is not printable ASCII).
\<close>

definition IsPrint :: "char \<Rightarrow> bool" where
  "IsPrint c \<longleftrightarrow> 32 \<le> (of_char c :: nat) \<and> (of_char c :: nat) \<le> 126"

definition ToLower :: "char \<Rightarrow> char" where
  "ToLower c =
     (if 65 \<le> (of_char c :: nat) \<and> (of_char c :: nat) \<le> 90 then char_of (of_char c + 32 :: nat)
      else c)"

definition urlErrorOp :: "string \<Rightarrow> string" where
  "urlErrorOp m =
     (case m of
        [] \<Rightarrow> ''Get''
      | c # cs \<Rightarrow> (if list_all IsPrint cs then c # map ToLower cs else m))"

definition url_Error :: "('u, 'r, 'c, 'p, 'w) net \<Rightarrow> string \<Rightarrow> string \<Rightarrow> error \<Rightarrow> error" where
  "url_Error n op u cause = op @ '' '' @ Quote n u @ '': '' @ cause"

definition client_Do ::
  "('u, 'r, 'c, 'p, 'w) net \<Rightarrow> 'p CheckRedirect \<Rightarrow> ('r, 'c) Request \<Rightarrow> 'w \<Rightarrow> dispatch \<times> 'w" where
  "client_Do n p rq w =
     (case send n p rq w of
        (SendFailed res u cause, w') \<Rightarrow>
          (Failed res (url_Error n (urlErrorOp (req_Method rq)) u cause), w')
      | (SendResponse r, w') \<Rightarrow> (Succeeded r, w'))"

text \<open>The two nested loops that add every value of \<open>b.query\<close> to the query of the URL.\<close>

fun Do_query_values :: "string \<Rightarrow> string list \<Rightarrow> Values \<Rightarrow> Values" where
  "Do_query_values k [] q = q"
| "Do_query_values k (v # vs) q = Do_query_values k vs (Values_Add k v q)"

fun Do_query :: "Values \<Rightarrow> Values \<Rightarrow> Values" where
  "Do_query [] q = q"
| "Do_query ((k, vs) # rest) q = Do_query rest (Do_query_values k vs q)"

text \<open>The two nested loops that add every value of \<open>b.headers\<close> to the request.\<close>

fun Do_header_values :: "(string \<Rightarrow> string) \<Rightarrow> string \<Rightarrow> string list \<Rightarrow> Header \<Rightarrow> Header" where
  "Do_header_values canon k [] h = h"
| "Do_header_values canon k (v # vs) h = Do_header_values canon k vs (Header_Add canon k v h)"

fun Do_headers :: "(string \<Rightarrow> string) \<Rightarrow> Header \<Rightarrow> Header \<Rightarrow> Header" where
  "Do_headers canon [] h = h"
| "Do_headers canon ((k, vs) # rest) h = Do_headers canon rest (Do_header_values canon k vs h)"

text \<open>
  Lines 198-234 of \<open>Do\<close>: the request, or the error of \<open>url.Parse\<close> or of
  \<open>http.NewRequestWithContext\<close>.
\<close>

definition Do_request ::
  "('u, 'r, 'c, 'p, 'w) net \<Rightarrow> ('r, 'c, 'w) ReqBuilder \<Rightarrow> error + ('r, 'c) Request" where
  "Do_request n b =
     (case url_Parse n (baseURL b @ url b) of
        Inl err \<Rightarrow> Inl err
      | Inr u0 \<Rightarrow>
          (let u = (if length (query b) > 0 then
                      url_set_RawQuery n (Values_Encode n (Do_query (query b) (url_Query n u0))) u0
                    else u0);
               c = (case ctx b of None \<Rightarrow> Background | Some c' \<Rightarrow> WithContext c')
           in case NewRequestWithContext n c (http_method b) (url_String n u) (body b) of
                Inl err \<Rightarrow> Inl err
              | Inr req0 \<Rightarrow>
                  (let req1 = req0\<lparr>req_Header :=
                                Do_headers (CanonicalMIMEHeaderKey n) (headers b) (req_Header req0)\<rparr>;
                       host = Header_Get (CanonicalMIMEHeaderKey n) ''Host'' (headers b)
                   in Inr (if host \<noteq> [] then req1\<lparr>req_Host := host\<rparr> else req1))))"

text \<open>
  Lines 236-261 of \<open>Do\<close>: save the policy, install the no-follow policy, run the before
  hook, dispatch, run the after hook, restore the policy, report or wrap.
\<close>

definition Do_dispatch ::
  "('u, 'r, 'c, 'p, 'w) net \<Rightarrow> ('r, 'c, 'w) ReqBuilder \<Rightarrow> ('r, 'c) Request \<Rightarrow> ('p, 'w) state \<Rightarrow>
   ('r, 'c, 'w) Response option \<times> ('p, 'w) state" where
  "Do_dispatch n b rq s =
     (let oldCheckRedirect = client_CheckRedirect s;
          s1 = (if noFollow b then s\<lparr>client_CheckRedirect := UseLastResponse\<rparr> else s);
          (rq', w2) = (case beforeRequest b of None \<Rightarrow> (rq, world s1) | Some f \<Rightarrow> f rq (world s1));
          (result, w3) = client_Do n (client_CheckRedirect s1) rq' w2;
          (res, err) = (case result of Failed r e \<Rightarrow> (r, Some e) | Succeeded r \<Rightarrow> (Some r, None));
          w4 = (case afterRequest b of None \<Rightarrow> w3 | Some g \<Rightarrow> g rq' res err w3);
          s5 = s1\<lparr>client_CheckRedirect := oldCheckRedirect, world := w4\<rparr>
      in case result of
           Failed r e \<Rightarrow> (None, report b e s5)
         | Succeeded r \<Rightarrow> NewResponse r rq' (onError b) s5)"

definition Do ::
  "('u, 'r, 'c, 'p, 'w) net \<Rightarrow> ('r, 'c, 'w) ReqBuilder \<Rightarrow> ('p, 'w) state \<Rightarrow>
   ('r, 'c, 'w) Response option \<times> ('p, 'w) state" where
  "Do n b s =
     (case Do_request n b of
        Inl err \<Rightarrow> (None, report b err s)
      | Inr rq \<Rightarrow> Do_dispatch n b rq s)"

section \<open>Auxiliary definitions for the statements\<close>

text \<open>
  The key/value pairs that a call with the arguments \<open>args\<close> consumes: the pair at the
  positions \<open>2i\<close> and \<open>2i+1\<close> for every \<open>i\<close> below \<open>len(args)/2\<close>.
\<close>

definition pairs :: "string list \<Rightarrow> (string \<times> string) list" where
  "pairs args = map (\<lambda>i. (args ! (i * 2), args ! (i * 2 + 1))) [0..<length args div 2]"

text \<open>The values that the pairs give to the key \<open>k\<close>, in their order.\<close>

definition values_of :: "string \<Rightarrow> (string \<times> string) list \<Rightarrow> string list" where
  "values_of k ps = map snd (filter (\<lambda>p. fst p = k) ps)"

text \<open>The loop of \<open>Q\<close> as a recursion over the pairs still to be consumed.\<close>

fun Q_pairs :: "(string \<times> string) list \<Rightarrow> (string \<rightharpoonup> bool) \<Rightarrow> Values \<Rightarrow> Values" where
  "Q_pairs [] keys q = q"
| "Q_pairs ((key, val) # ps) keys q =
     Q_pairs ps (keys(key \<mapsto> True))
       (if keys key \<noteq> None then Values_Add key val q else Values_Set key val q)"



text \<open>
  The characters of a text in UTF-8, the reading of the spec's word for a body decoded as
  text: every byte that does not continue a character (a byte \<open>10xxxxxx\<close> does) begins one.
\<close>

definition continuation :: "char \<Rightarrow> bool" where
  "continuation c \<longleftrightarrow> (of_char c :: nat) div 64 = 2"

definition characters :: "string \<Rightarrow> nat" where
  "characters str = length (filter (\<lambda>c. \<not> continuation c) str)"

section \<open>Example instances\<close>

text \<open>
  A world that is the log of what the sink, the hooks and the transport were called with.
\<close>

definition sink :: "error \<Rightarrow> string list \<Rightarrow> string list" where
  "sink err w = w @ [''onError '' @ err]"

definition builder0 :: "(unit, unit, string list) ReqBuilder" where
  "builder0 = NewReqBuilder ''http://example.test'' sink"

definition state0 :: "(unit, string list) state" where
  "state0 = \<lparr>client_CheckRedirect = NilCheckRedirect, world = []\<rparr>"

text \<open>Header keys that are canonical already are left as they are.\<close>

definition same_key :: "string \<Rightarrow> string" where
  "same_key k = k"

text \<open>A stand-in for \<open>url.Values.Encode\<close>: the keys, one after the other.\<close>

definition Encode_keys :: "Values \<Rightarrow> string" where
  "Encode_keys v = concat (map fst v)"

definition Marshal_unsupported :: "unit \<Rightarrow> error + string" where
  "Marshal_unsupported j = Inl ''json: unsupported type''"

definition policy_name :: "unit CheckRedirect \<Rightarrow> string" where
  "policy_name p =
     (case p of NilCheckRedirect \<Rightarrow> ''follow'' | CallerCheckRedirect _ \<Rightarrow> ''caller''
      | UseLastResponse \<Rightarrow> ''no-follow'')"

definition response_409 :: http_Response where
  "response_409 =
     \<lparr>StatusCode = 409, res_Header = [(''Content-Type'', [''text/plain''])],
      res_Body = Inr ''{}'', res_Request_URL = ''http://example.test/''\<rparr>"

text \<open>
  Three transports: one answers 409, one is refused the connection, one reads the body of
  the request and fails with the error in which the body ends.
\<close>

definition transport_409 ::
  "unit CheckRedirect \<Rightarrow> (unit, unit) Request \<Rightarrow> string list \<Rightarrow> sent \<times> string list" where
  "transport_409 p rq w = (SendResponse response_409, w @ [''dispatch '' @ policy_name p])"

definition transport_refused ::
  "unit CheckRedirect \<Rightarrow> (unit, unit) Request \<Rightarrow> string list \<Rightarrow> sent \<times> string list" where
  "transport_refused p rq w =
     (SendFailed None (req_URL rq) ''connection refused'', w @ [''dispatch '' @ policy_name p])"


text \<open>\<open>%q\<close> of a text with nothing to escape: the text between double quotes.\<close>

definition Quote_plain :: "string \<Rightarrow> string" where
  "Quote_plain u = [CHR 0x22] @ u @ [CHR 0x22]"

definition net_of ::
  "(unit CheckRedirect \<Rightarrow> (unit, unit) Request \<Rightarrow> string list \<Rightarrow> sent \<times> string list) \<Rightarrow>
   (string, unit, unit, unit, string list) net" where
  "net_of transport =
     \<lparr>url_Parse = Inr, url_Query = (\<lambda>u. []), url_set_RawQuery = (\<lambda>q u. u @ ''?'' @ q),
      url_String = (\<lambda>u. u), Values_Encode = Encode_keys,
      NewRequest_error = (\<lambda>c m u. None), URL_Host = (\<lambda>u. ''example.test''),
      CanonicalMIMEHeaderKey = same_key, Quote = Quote_plain, send = transport\<rparr>"

definition after_log ::
  "(unit, unit) Request \<Rightarrow> http_Response option \<Rightarrow> error option \<Rightarrow> string list \<Rightarrow> string list" where
  "after_log rq res err w =
     w @ [''after '' @ req_Method rq @ '' '' @ req_URL rq @ '' '' @
          (case err of None \<Rightarrow> ''no error'' | Some e \<Rightarrow> e)]"

definition GET_x :: "(unit, unit, string list) ReqBuilder" where
  "GET_x = fst (Method ''GET'' ''/x'' builder0 state0)"


definition request_GET :: "(unit, unit) Request" where
  "request_GET =
     \<lparr>req_Method = ''GET'', req_URL = ''http://example.test/'', req_Header = [],
      req_Host = ''example.test'', req_Body = None, req_Context = Background\<rparr>"

definition wrapper_409 :: "(unit, unit, string list) Response" where
  "wrapper_409 =
     \<lparr>http_res = response_409, Response_req = request_GET, Response_onError = sink,
      Response_Body = ''{}'', Response_URL = ''http://example.test/''\<rparr>"

text \<open>A decoder for the example: it accepts the body \<open>{}\<close> only, and leaves the target.\<close>

definition Unmarshal_braces :: "string \<Rightarrow> unit \<Rightarrow> error + unit" where
  "Unmarshal_braces bs j = (if bs = ''{}'' then Inr j else Inl ''invalid character'')"

text \<open>A body of 100 characters in 101 bytes: 99 times \<open>x\<close>, then U+00E9 in two bytes.\<close>

definition body_99x_e_acute :: string where
  "body_99x_e_acute = replicate 99 CHR ''x'' @ [CHR 0xC3, CHR 0xA9]"

section \<open>The loops over the arguments\<close>

lemma length_pairs: "length (pairs args) = length args div 2"
  by (simp add: pairs_def)

lemma drop_pairs:
  assumes "i < length args div 2"
  shows "drop i (pairs args) = (args ! (i * 2), args ! (i * 2 + 1)) # drop (Suc i) (pairs args)"
proof -
  have "i < length (pairs args)" using assms by (simp add: length_pairs)
  then have "drop i (pairs args) = pairs args ! i # drop (Suc i) (pairs args)"
    by (simp add: Cons_nth_drop_Suc)
  moreover have "pairs args ! i = (args ! (i * 2), args ! (i * 2 + 1))"
    using assms by (simp add: pairs_def)
  ultimately show ?thesis by simp
qed

lemma index_in_range:
  assumes "i < length args div 2"
  shows "index args (i * 2) = Some (args ! (i * 2))"
    and "index args (i * 2 + 1) = Some (args ! (i * 2 + 1))"
  using assms by (auto simp: index_def)

lemma Q_loop_pairs: "Q_loop args i keys q = Some (Q_pairs (drop i (pairs args)) keys q)"
proof (induction args i keys q rule: Q_loop.induct)
  case (1 args i keys q)
  show ?case
  proof (cases "i < length args div 2")
    case True
    note ix = index_in_range [OF True]
    have "Q_loop args i keys q =
          Q_loop args (i + 1) (keys(args ! (i * 2) \<mapsto> True))
            (if keys (args ! (i * 2)) \<noteq> None then Values_Add (args ! (i * 2)) (args ! (i * 2 + 1)) q
             else Values_Set (args ! (i * 2)) (args ! (i * 2 + 1)) q)"
      using True ix by (subst Q_loop.simps) simp
    also have "\<dots> = Some (Q_pairs (drop (i + 1) (pairs args)) (keys(args ! (i * 2) \<mapsto> True))
            (if keys (args ! (i * 2)) \<noteq> None then Values_Add (args ! (i * 2)) (args ! (i * 2 + 1)) q
             else Values_Set (args ! (i * 2)) (args ! (i * 2 + 1)) q))"
      using "1.IH" [OF True ix(1) ix(2)] .
    also have "\<dots> = Some (Q_pairs (drop i (pairs args)) keys q)"
      by (simp add: drop_pairs [OF True])
    finally show ?thesis .
  next
    case False
    then have "drop i (pairs args) = []" by (simp add: length_pairs)
    with False show ?thesis by (subst Q_loop.simps) simp
  qed
qed

lemma map_of_Values_Set: "map_of (Values_Set key val q) k = (if k = key then Some [val] else map_of q k)"
  by (simp add: Values_Set_def update_conv')

lemma map_of_Values_Add:
  "map_of (Values_Add key val q) k =
     (if k = key then Some ((case map_of q key of None \<Rightarrow> [] | Some vs \<Rightarrow> vs) @ [val]) else map_of q k)"
  by (simp add: Values_Add_def update_conv')

lemma values_of_absent: "k \<notin> fst ` set ps \<Longrightarrow> filter (\<lambda>p. fst p = k) ps = []"
  by (induction ps) auto

lemma map_of_Q_pairs:
  "map_of (Q_pairs ps keys q) k =
     (if k \<in> fst ` set ps then
        Some ((if keys k \<noteq> None then (case map_of q k of None \<Rightarrow> [] | Some vs \<Rightarrow> vs) else []) @ values_of k ps)
      else map_of q k)"
proof (induction ps arbitrary: keys q)
  case Nil
  show ?case by simp
next
  case (Cons p ps)
  obtain key val where p: "p = (key, val)" by (cases p)
  show ?case
    unfolding p Q_pairs.simps Cons.IH
    by (auto simp: map_of_Values_Set map_of_Values_Add values_of_def values_of_absent
        split: option.splits)
qed


lemma pairs_butlast:
  assumes "odd (length args)"
  shows "pairs (butlast args) = pairs args"
proof -
  have len: "length (butlast args) div 2 = length args div 2"
    using assms by (cases args rule: rev_cases) (auto elim!: oddE)
  have "\<And>i. i < length args div 2 \<Longrightarrow> i * 2 + 1 < length args - 1"
    using assms by (auto elim!: oddE)
  then have "\<And>i. i < length args div 2 \<Longrightarrow>
      butlast args ! (i * 2) = args ! (i * 2) \<and> butlast args ! (i * 2 + 1) = args ! (i * 2 + 1)"
    by (simp add: nth_butlast)
  then show ?thesis
    unfolding pairs_def len by (intro map_cong) auto
qed

lemma Header_loop_pairs:
  "Header_loop canon args i h =
     Some (fold (\<lambda>(k, v). Header_Set canon k v) (drop i (pairs args)) h)"
proof (induction canon args i h rule: Header_loop.induct)
  case (1 canon args i h)
  show ?case
  proof (cases "i < length args div 2")
    case True
    note ix = index_in_range [OF True]
    have "Header_loop canon args i h =
          Header_loop canon args (i + 1) (Header_Set canon (args ! (i * 2)) (args ! (i * 2 + 1)) h)"
      using True ix by (subst Header_loop.simps) simp
    also have "\<dots> = Some (fold (\<lambda>(k, v). Header_Set canon k v) (drop (i + 1) (pairs args))
            (Header_Set canon (args ! (i * 2)) (args ! (i * 2 + 1)) h))"
      using "1.IH" [OF True ix(1) ix(2)] .
    also have "\<dots> = Some (fold (\<lambda>(k, v). Header_Set canon k v) (drop i (pairs args)) h)"
      by (simp add: drop_pairs [OF True])
    finally show ?thesis .
  next
    case False
    then have "drop i (pairs args) = []" by (simp add: length_pairs)
    with False show ?thesis by (subst Header_loop.simps) simp
  qed
qed

lemma Form_loop_pairs:
  "Form_loop args i q = Some (fold (\<lambda>(k, v). Values_Set k v) (drop i (pairs args)) q)"
proof (induction args i q rule: Form_loop.induct)
  case (1 args i q)
  show ?case
  proof (cases "i < length args div 2")
    case True
    note ix = index_in_range [OF True]
    have "Form_loop args i q =
          Form_loop args (i + 1) (Values_Set (args ! (i * 2)) (args ! (i * 2 + 1)) q)"
      using True ix by (subst Form_loop.simps) simp
    also have "\<dots> = Some (fold (\<lambda>(k, v). Values_Set k v) (drop (i + 1) (pairs args))
            (Values_Set (args ! (i * 2)) (args ! (i * 2 + 1)) q))"
      using "1.IH" [OF True ix(1) ix(2)] .
    also have "\<dots> = Some (fold (\<lambda>(k, v). Values_Set k v) (drop i (pairs args)) q)"
      by (simp add: drop_pairs [OF True])
    finally show ?thesis .
  next
    case False
    then have "drop i (pairs args) = []" by (simp add: length_pairs)
    with False show ?thesis by (subst Form_loop.simps) simp
  qed
qed

lemma Q_eq: "Q args b s = Some (b\<lparr>query := Q_pairs (pairs args) Map.empty (query b)\<rparr>, s)"
  by (simp add: Q_def Q_loop_pairs)

lemma Header_eq:
  "Header canon args b s =
     Some (b\<lparr>headers := fold (\<lambda>(k, v). Header_Set canon k v) (pairs args) (headers b)\<rparr>, s)"
  by (simp add: Header_def Header_loop_pairs)

lemma pairs_two: "pairs [k, v] = [(k, v)]"
  by (simp add: pairs_def)

lemma Header_two:
  "Header canon [k, v] b s = Some (b\<lparr>headers := Header_Set canon k v (headers b)\<rparr>, s)"
  by (simp add: Header_eq pairs_two)

lemma Form_eq:
  "Form Encode canon args b s =
     Some (b\<lparr>headers := Header_Set canon ''Content-Type'' ''application/x-www-form-urlencoded'' (headers b),
             body := Some (StringsReader (Encode (fold (\<lambda>(k, v). Values_Set k v) (pairs args) [])))\<rparr>, s)"
  by (simp add: Form_def Form_loop_pairs Header_two Body_def)

lemma pairs_four: "pairs [a, b, c, d] = [(a, b), (c, d)]"
proof -
  have "[0..<length [a, b, c, d] div 2] = [0, Suc 0]"
    by (simp add: upt_conv_Cons)
  then show ?thesis by (simp add: pairs_def)
qed

lemma Q_request_go_loop_pairs:
  "Q_request_go_loop args i q = Some (fold (\<lambda>(k, v). Values_Set k v) (drop i (pairs args)) q)"
proof (induction args i q rule: Q_request_go_loop.induct)
  case (1 args i q)
  show ?case
  proof (cases "i < length args div 2")
    case True
    note ix = index_in_range [OF True]
    have "Q_request_go_loop args i q =
          Q_request_go_loop args (i + 1) (Values_Set (args ! (i * 2)) (args ! (i * 2 + 1)) q)"
      using True ix by (subst Q_request_go_loop.simps) simp
    also have "\<dots> = Some (fold (\<lambda>(k, v). Values_Set k v) (drop (i + 1) (pairs args))
            (Values_Set (args ! (i * 2)) (args ! (i * 2 + 1)) q))"
      using "1.IH" [OF True ix(1) ix(2)] .
    also have "\<dots> = Some (fold (\<lambda>(k, v). Values_Set k v) (drop i (pairs args)) q)"
      by (simp add: drop_pairs [OF True])
    finally show ?thesis .
  next
    case False
    then have "drop i (pairs args) = []" by (simp add: length_pairs)
    with False show ?thesis by (subst Q_request_go_loop.simps) simp
  qed
qed

section \<open>Facts about the request and the example instances\<close>

lemma Do_request_body:
  assumes "Do_request n b = Inr rq"
  shows "req_Body rq = NewRequest_body (body b)"
  using assms
  by (auto simp: Do_request_def NewRequestWithContext_def Let_def split: sum.splits option.splits if_splits)

lemmas GET_x_simps = GET_x_def Method_def NoFollow_def builder0_def NewReqBuilder_def

lemma urlErrorOp_GET: "urlErrorOp ''GET'' = ''Get''"
  by code_simp

lemma sublist_between: "ys = ps @ xs @ ss \<Longrightarrow> sublist xs ys"
  by (auto simp: sublist_def)

section \<open>Query accumulation\<close>

text \<open>
  C1. A call of \<open>Q\<close> (src/unnamed/part\_000) leaves under every key that occurs among its
  pairs exactly the values that this call pairs with the key, in their order: the first
  occurrence replaces whatever the builder had for the key, every later occurrence in the
  same call appends. The keys seen are those of this call only, so a later call replaces
  again. Keys that do not occur keep their values. The call does not panic, returns the
  builder and leaves the state as it is.
\<close>

theorem Q_replace_then_append:
  "\<exists>q'. Q args b s = Some (b\<lparr>query := q'\<rparr>, s)
      \<and> (\<forall>k. map_of q' k =
            (if k \<in> fst ` set (pairs args) then Some (values_of k (pairs args))
             else map_of (query b) k))"
  by (rule exI [of _ "Q_pairs (pairs args) Map.empty (query b)"])
     (simp add: Q_eq map_of_Q_pairs)

theorem Q_replace_then_append_witness:
  "\<exists>b1 b2. Q [''a'', ''1'', ''a'', ''2''] builder0 state0 = Some (b1, state0)
        \<and> map_of (query b1) ''a'' = Some [''1'', ''2'']
        \<and> Q [''a'', ''3''] b1 state0 = Some (b2, state0)
        \<and> map_of (query b2) ''a'' = Some [''3'']"
proof -
  obtain q1 where q1: "Q [''a'', ''1'', ''a'', ''2''] builder0 state0 = Some (builder0\<lparr>query := q1\<rparr>, state0)"
    and m1: "\<forall>k. map_of q1 k =
            (if k \<in> fst ` set (pairs [''a'', ''1'', ''a'', ''2'']) then Some (values_of k (pairs [''a'', ''1'', ''a'', ''2'']))
             else map_of (query builder0) k)"
    using Q_replace_then_append [of "[''a'', ''1'', ''a'', ''2'']" builder0 state0] by blast
  obtain q2 where q2: "Q [''a'', ''3''] (builder0\<lparr>query := q1\<rparr>) state0 = Some (builder0\<lparr>query := q1, query := q2\<rparr>, state0)"
    and m2: "\<forall>k. map_of q2 k =
            (if k \<in> fst ` set (pairs [''a'', ''3'']) then Some (values_of k (pairs [''a'', ''3'']))
             else map_of (query (builder0\<lparr>query := q1\<rparr>)) k)"
    using Q_replace_then_append [of "[''a'', ''3'']" "builder0\<lparr>query := q1\<rparr>" state0] by blast
  have "map_of q1 ''a'' = Some [''1'', ''2'']"
    using m1 by (simp add: pairs_four values_of_def)
  moreover have "map_of q2 ''a'' = Some [''3'']"
    using m2 by (simp add: pairs_two values_of_def)
  ultimately show ?thesis using q1 q2 by simp
qed

text \<open>
  The \<open>Q\<close> of src/request.go, which stores every pair with \<open>Set\<close>, keeps the last value
  only.
\<close>

lemma Q_request_go_keeps_last:
  "Q_request_go [''a'', ''1'', ''a'', ''2''] builder0 state0 =
     Some (builder0\<lparr>query := [(''a'', [''2''])]\<rparr>, state0)"
  by (simp add: Q_request_go_def Q_request_go_loop_pairs pairs_four Values_Set_def
      builder0_def NewReqBuilder_def)

section \<open>Arguments of odd length\<close>

text \<open>
  C9. \<open>Q\<close>, \<open>Header\<close> and \<open>Form\<close> consume the first \<open>len(args)/2\<close> pairs of their arguments,
  the pair number \<open>i\<close> being the arguments at \<open>2i\<close> and \<open>2i+1\<close>, and nothing else: \<open>Q\<close> runs
  its loop over these pairs, \<open>Header\<close> sets the header of every pair in turn, \<open>Form\<close> sets
  the value of every pair in turn and encodes the result as the body. When the argument
  list has odd length, these are the pairs of the list without its last argument, a key
  without a value, which is ignored: the call does what it does on the list without it.
  None of the three panics on an index, each returns the builder, and the state, with the
  world of the error sink in it, is the one the call started from.
\<close>

theorem odd_args_trailing_key_ignored:
  assumes "odd (length args)"
  shows "Q args b s = Q (butlast args) b s
       \<and> Header canon args b s = Header canon (butlast args) b s
       \<and> Form Encode canon args b s = Form Encode canon (butlast args) b s
       \<and> (\<exists>b'. Q args b s = Some (b', s))
       \<and> (\<exists>b'. Header canon args b s = Some (b', s))
       \<and> (\<exists>b'. Form Encode canon args b s = Some (b', s))
       \<and> length (pairs args) = length args div 2
       \<and> (\<forall>i < length args div 2. pairs args ! i = (args ! (i * 2), args ! (i * 2 + 1)))
       \<and> pairs args = pairs (butlast args)
       \<and> Q args b s = Some (b\<lparr>query := Q_pairs (pairs args) Map.empty (query b)\<rparr>, s)
       \<and> (\<forall>k. map_of (Q_pairs (pairs args) Map.empty (query b)) k =
              (if k \<in> fst ` set (pairs args) then Some (values_of k (pairs args))
               else map_of (query b) k))
       \<and> Header canon args b s =
           Some (b\<lparr>headers := fold (\<lambda>(k, v). Header_Set canon k v) (pairs args) (headers b)\<rparr>, s)
       \<and> Form Encode canon args b s =
           Some (b\<lparr>headers := Header_Set canon ''Content-Type''
                                ''application/x-www-form-urlencoded'' (headers b),
                   body := Some (StringsReader
                                  (Encode (fold (\<lambda>(k, v). Values_Set k v) (pairs args) [])))\<rparr>, s)"
proof -
  have p: "pairs (butlast args) = pairs args"
    using assms by (rule pairs_butlast)
  have c1: "Q args b s = Q (butlast args) b s"
    by (simp add: Q_eq p)
  have c2: "Header canon args b s = Header canon (butlast args) b s"
    by (simp add: Header_eq p)
  have c3: "Form Encode canon args b s = Form Encode canon (butlast args) b s"
    by (simp add: Form_eq p)
  have c4: "\<exists>b'. Q args b s = Some (b', s)"
    by (simp add: Q_eq)
  have c5: "\<exists>b'. Header canon args b s = Some (b', s)"
    by (simp add: Header_eq)
  have c6: "\<exists>b'. Form Encode canon args b s = Some (b', s)"
    by (simp add: Form_eq)
  have c7: "length (pairs args) = length args div 2"
    by (rule length_pairs)
  have c8: "\<forall>i < length args div 2. pairs args ! i = (args ! (i * 2), args ! (i * 2 + 1))"
    by (simp add: pairs_def)
  have c9: "pairs args = pairs (butlast args)"
    by (simp add: p)
  have c10: "Q args b s = Some (b\<lparr>query := Q_pairs (pairs args) Map.empty (query b)\<rparr>, s)"
    by (rule Q_eq)
  have c11: "\<forall>k. map_of (Q_pairs (pairs args) Map.empty (query b)) k =
              (if k \<in> fst ` set (pairs args) then Some (values_of k (pairs args))
               else map_of (query b) k)"
    by (simp add: map_of_Q_pairs)
  have c12: "Header canon args b s =
           Some (b\<lparr>headers := fold (\<lambda>(k, v). Header_Set canon k v) (pairs args) (headers b)\<rparr>, s)"
    by (rule Header_eq)
  have c13: "Form Encode canon args b s =
           Some (b\<lparr>headers := Header_Set canon ''Content-Type''
                                ''application/x-www-form-urlencoded'' (headers b),
                   body := Some (StringsReader
                                  (Encode (fold (\<lambda>(k, v). Values_Set k v) (pairs args) [])))\<rparr>, s)"
    by (rule Form_eq)
  show ?thesis
    by (intro conjI) (fact c1 c2 c3 c4 c5 c6 c7 c8 c9 c10 c11 c12 c13)+
qed

theorem odd_args_trailing_key_ignored_witness:
  "odd (length [''a'', ''1'', ''b''])
   \<and> Q [''a'', ''1'', ''b''] builder0 state0 = Some (builder0\<lparr>query := [(''a'', [''1''])]\<rparr>, state0)
   \<and> Q [''a'', ''1''] builder0 state0 = Some (builder0\<lparr>query := [(''a'', [''1''])]\<rparr>, state0)
   \<and> Header same_key [''a'', ''1'', ''b''] builder0 state0 =
       Some (builder0\<lparr>headers := [(''a'', [''1''])]\<rparr>, state0)
   \<and> Header same_key [''a'', ''1''] builder0 state0 =
       Some (builder0\<lparr>headers := [(''a'', [''1''])]\<rparr>, state0)
   \<and> Form Encode_keys same_key [''a'', ''1'', ''b''] builder0 state0 =
       Some (builder0\<lparr>headers := [(''Content-Type'', [''application/x-www-form-urlencoded''])],
                       body := Some (StringsReader ''a'')\<rparr>, state0)
   \<and> Form Encode_keys same_key [''a'', ''1''] builder0 state0 =
       Some (builder0\<lparr>headers := [(''Content-Type'', [''application/x-www-form-urlencoded''])],
                       body := Some (StringsReader ''a'')\<rparr>, state0)"
proof -
  have o: "odd (length [''a'', ''1'', ''b''])" by simp
  note T = odd_args_trailing_key_ignored [OF o, of builder0 state0 same_key Encode_keys]
  have e: "query builder0 = []" "headers builder0 = []"
    by (simp_all add: builder0_def NewReqBuilder_def)
  have p: "pairs [''a'', ''1'', ''b''] = [(''a'', ''1'')]"
  proof -
    from T have "pairs [''a'', ''1'', ''b''] = pairs (butlast [''a'', ''1'', ''b''])" by blast
    then show ?thesis by (simp add: pairs_two)
  qed
  have q: "Q [''a'', ''1'', ''b''] builder0 state0 = Some (builder0\<lparr>query := [(''a'', [''1''])]\<rparr>, state0)"
  proof -
    from T have "Q [''a'', ''1'', ''b''] builder0 state0 =
        Some (builder0\<lparr>query := Q_pairs (pairs [''a'', ''1'', ''b'']) Map.empty (query builder0)\<rparr>, state0)"
      by blast
    then show ?thesis by (simp add: p e Values_Set_def)
  qed
  have h: "Header same_key [''a'', ''1'', ''b''] builder0 state0 =
       Some (builder0\<lparr>headers := [(''a'', [''1''])]\<rparr>, state0)"
  proof -
    from T have "Header same_key [''a'', ''1'', ''b''] builder0 state0 =
        Some (builder0\<lparr>headers := fold (\<lambda>(k, v). Header_Set same_key k v)
                (pairs [''a'', ''1'', ''b'']) (headers builder0)\<rparr>, state0)"
      by blast
    then show ?thesis by (simp add: p e Header_Set_def Values_Set_def same_key_def)
  qed
  have f: "Form Encode_keys same_key [''a'', ''1'', ''b''] builder0 state0 =
       Some (builder0\<lparr>headers := [(''Content-Type'', [''application/x-www-form-urlencoded''])],
                       body := Some (StringsReader ''a'')\<rparr>, state0)"
  proof -
    from T have "Form Encode_keys same_key [''a'', ''1'', ''b''] builder0 state0 =
        Some (builder0\<lparr>headers := Header_Set same_key ''Content-Type''
                                ''application/x-www-form-urlencoded'' (headers builder0),
                body := Some (StringsReader
                  (Encode_keys (fold (\<lambda>(k, v). Values_Set k v) (pairs [''a'', ''1'', ''b'']) [])))\<rparr>,
              state0)"
      by blast
    then show ?thesis
      by (simp add: p e Header_Set_def Values_Set_def same_key_def Encode_keys_def)
  qed
  from T have "Q [''a'', ''1'', ''b''] builder0 state0 = Q (butlast [''a'', ''1'', ''b'']) builder0 state0"
    and "Header same_key [''a'', ''1'', ''b''] builder0 state0 =
         Header same_key (butlast [''a'', ''1'', ''b'']) builder0 state0"
    and "Form Encode_keys same_key [''a'', ''1'', ''b''] builder0 state0 =
         Form Encode_keys same_key (butlast [''a'', ''1'', ''b'']) builder0 state0"
    by blast+
  then have "Q [''a'', ''1''] builder0 state0 = Some (builder0\<lparr>query := [(''a'', [''1''])]\<rparr>, state0)"
    and "Header same_key [''a'', ''1''] builder0 state0 =
       Some (builder0\<lparr>headers := [(''a'', [''1''])]\<rparr>, state0)"
    and "Form Encode_keys same_key [''a'', ''1''] builder0 state0 =
       Some (builder0\<lparr>headers := [(''Content-Type'', [''application/x-www-form-urlencoded''])],
                       body := Some (StringsReader ''a'')\<rparr>, state0)"
    using q h f by simp_all
  with o q h f show ?thesis by blast
qed

section \<open>The JSON body\<close>

lemma JSON_eq:
  "ReqBuilder_JSON Marshal canon j b s =
     (case Marshal j of
        Inl err \<Rightarrow>
          Some (b\<lparr>headers := Header_Set canon ''Content-Type'' ''application/json'' (headers b),
                  body := Some (BytesReader [])\<rparr>, report b err s)
      | Inr jsonBytes \<Rightarrow>
          Some (b\<lparr>headers := Header_Set canon ''Content-Type'' ''application/json'' (headers b),
                  body := Some (BytesReader jsonBytes)\<rparr>, s))"
  by (simp add: ReqBuilder_JSON_def Header_two Body_def report_def split: sum.splits)

lemma Header_Get_Set: "Header_Get canon k (Header_Set canon k v h) = v"
  by (simp add: Header_Get_def Header_Set_def map_of_Values_Set)

text \<open>
  C10. Every call of \<open>JSON\<close> on the builder sets the header \<open>Content-Type\<close> to
  \<open>application/json\<close>, whatever \<open>json.Marshal\<close> returns and whatever the header was before:
  the header is set before the value is serialized, and the call returns the builder.
\<close>

theorem JSON_sets_Content_Type:
  "\<exists>b' s'. ReqBuilder_JSON Marshal canon j b s = Some (b', s')
      \<and> headers b' = Header_Set canon ''Content-Type'' ''application/json'' (headers b)
      \<and> map_of (headers b') (canon ''Content-Type'') = Some [''application/json'']
      \<and> Header_Get canon ''Content-Type'' (headers b') = ''application/json''"
  by (cases "Marshal j")
     (simp_all add: JSON_eq Header_Get_Set, simp_all add: Header_Set_def map_of_Values_Set)

text \<open>
  C2, as stated, fails: when \<open>json.Marshal\<close> fails, \<open>JSON\<close> still calls
  \<open>b.Body(bytes.NewReader(jsonBytes))\<close> with the \<open>nil\<close> slice, so the body of the builder is
  a reader of no bytes and not absent. On a new builder, whose body is absent, the body is
  set after the failing call.
\<close>

theorem JSON_failure_body_counterexample:
  "Marshal_unsupported () = Inl ''json: unsupported type''
   \<and> body builder0 = None
   \<and> body (fst (the (ReqBuilder_JSON Marshal_unsupported same_key () builder0 state0))) =
       Some (BytesReader [])
   \<and> body (fst (the (ReqBuilder_JSON Marshal_unsupported same_key () builder0 state0))) \<noteq> None"
  by (simp add: JSON_eq Marshal_unsupported_def builder0_def NewReqBuilder_def)

text \<open>
  C2, amended. When \<open>json.Marshal\<close> fails, the error goes to the sink exactly once, and the
  body of the builder is set to a reader of no bytes, in the place of any body set before;
  when it succeeds, nothing is reported and the body is a reader of the serialized bytes.
  In both cases the call returns the builder, with \<open>Content-Type\<close> set. After a failure
  \<open>Do\<close> on that builder does not stop: when the request can be built, its body is
  \<open>http.NoBody\<close>, which \<open>net/http\<close> puts for a reader of no bytes, and \<open>Do\<close> goes on to the
  dispatch.
\<close>

theorem JSON_failure_reports_once_empty_body:
  "(Marshal j = Inl err \<longrightarrow>
      ReqBuilder_JSON Marshal canon j b s =
        Some (b\<lparr>headers := Header_Set canon ''Content-Type'' ''application/json'' (headers b),
                body := Some (BytesReader [])\<rparr>,
              s\<lparr>world := onError b err (world s)\<rparr>))
   \<and> (Marshal j = Inr jsonBytes \<longrightarrow>
      ReqBuilder_JSON Marshal canon j b s =
        Some (b\<lparr>headers := Header_Set canon ''Content-Type'' ''application/json'' (headers b),
                body := Some (BytesReader jsonBytes)\<rparr>, s))
   \<and> (Marshal j = Inl err \<and> ReqBuilder_JSON Marshal canon j b s = Some (b', s')
        \<and> Do_request n b' = Inr rq \<longrightarrow>
      req_Body rq = Some NoBody \<and> Do n b' s' = Do_dispatch n b' rq s')"
proof (intro conjI impI)
  assume h: "Marshal j = Inl err \<and> ReqBuilder_JSON Marshal canon j b s = Some (b', s')
        \<and> Do_request n b' = Inr rq"
  then have "body b' = Some (BytesReader [])"
    by (auto simp: JSON_eq)
  with h show "req_Body rq = Some NoBody"
    using Do_request_body [of n b' rq] by (simp add: NewRequest_body_def)
  from h show "Do n b' s' = Do_dispatch n b' rq s'"
    by (simp add: Do_def)
qed (simp_all add: JSON_eq report_def)

theorem JSON_failure_reports_once_empty_body_witness:
  "Marshal_unsupported () = Inl ''json: unsupported type''
   \<and> ReqBuilder_JSON Marshal_unsupported same_key () GET_x state0 =
       Some (GET_x\<lparr>headers := [(''Content-Type'', [''application/json''])],
                   body := Some (BytesReader [])\<rparr>,
             state0\<lparr>world := [''onError json: unsupported type'']\<rparr>)
   \<and> Do_request (net_of transport_409)
        (GET_x\<lparr>headers := [(''Content-Type'', [''application/json''])], body := Some (BytesReader [])\<rparr>) =
       Inr \<lparr>req_Method = ''GET'', req_URL = ''http://example.test/x'',
            req_Header = [(''Content-Type'', [''application/json''])],
            req_Host = ''example.test'', req_Body = Some NoBody, req_Context = Background\<rparr>
   \<and> snd (Do (net_of transport_409)
        (GET_x\<lparr>headers := [(''Content-Type'', [''application/json''])], body := Some (BytesReader [])\<rparr>)
        (state0\<lparr>world := [''onError json: unsupported type'']\<rparr>)) =
       state0\<lparr>world := [''onError json: unsupported type'', ''dispatch follow'']\<rparr>"
proof -
  let ?b' = "GET_x\<lparr>headers := [(''Content-Type'', [''application/json''])], body := Some (BytesReader [])\<rparr>"
  let ?s' = "state0\<lparr>world := [''onError json: unsupported type'']\<rparr>"
  let ?rq = "\<lparr>req_Method = ''GET'', req_URL = ''http://example.test/x'',
            req_Header = [(''Content-Type'', [''application/json''])],
            req_Host = ''example.test'', req_Body = Some NoBody, req_Context = Background\<rparr>
            :: (unit, unit) Request"
  note T = JSON_failure_reports_once_empty_body
    [where Marshal = Marshal_unsupported and j = "()" and err = "''json: unsupported type''"
       and canon = same_key and b = GET_x and s = state0 and b' = ?b' and s' = ?s'
       and n = "net_of transport_409" and rq = ?rq]
  have m: "Marshal_unsupported () = Inl ''json: unsupported type''"
    by (simp add: Marshal_unsupported_def)
  have "ReqBuilder_JSON Marshal_unsupported same_key () GET_x state0 =
        Some (GET_x\<lparr>headers := Header_Set same_key ''Content-Type'' ''application/json'' (headers GET_x),
                body := Some (BytesReader [])\<rparr>,
              state0\<lparr>world := onError GET_x ''json: unsupported type'' (world state0)\<rparr>)"
    using T m by blast
  then have j: "ReqBuilder_JSON Marshal_unsupported same_key () GET_x state0 = Some (?b', ?s')"
    by (simp add: GET_x_simps state0_def sink_def Header_Set_def Values_Set_def same_key_def)
  have r: "Do_request (net_of transport_409) ?b' = Inr ?rq"
    by (simp add: Do_request_def NewRequestWithContext_def NewRequest_body_def net_of_def
        GET_x_simps Header_Get_def Header_Add_def Values_Add_def same_key_def)
  have "Do (net_of transport_409) ?b' ?s' = Do_dispatch (net_of transport_409) ?b' ?rq ?s'"
    using T m j r by blast
  then have "snd (Do (net_of transport_409) ?b' ?s') =
       state0\<lparr>world := [''onError json: unsupported type'', ''dispatch follow'']\<rparr>"
    by (simp add: Do_dispatch_def client_Do_def net_of_def transport_409_def NewResponse_def
        response_409_def policy_name_def GET_x_simps state0_def)
  with m j r show ?thesis by blast
qed

section \<open>Assertions on the response\<close>

text \<open>
  C7, as stated, fails: the excerpt is cut by bytes, and a body of 100 characters can have
  more than 100 bytes. The body of 99 times \<open>x\<close> and U+00E9 has 100 characters in 101
  bytes; its excerpt is not the body but its first 100 bytes, which end in the middle of
  the last character, followed by \<open>...\<close>.
\<close>

theorem bodyExcerpt_characters_counterexample:
  "characters body_99x_e_acute = 100
   \<and> length body_99x_e_acute = 101
   \<and> bodyExcerpt (wrapper_409\<lparr>Response_Body := body_99x_e_acute\<rparr>) =
       replicate 99 CHR ''x'' @ [CHR 0xC3] @ ''...''
   \<and> bodyExcerpt (wrapper_409\<lparr>Response_Body := body_99x_e_acute\<rparr>) \<noteq> body_99x_e_acute"
  by (simp add: characters_def continuation_def body_99x_e_acute_def bodyExcerpt_def)

text \<open>
  C7, amended. The excerpt of a body of at most 100 bytes is the body itself, so a body of
  exactly 100 bytes gets no ellipsis; the excerpt of a body of more than 100 bytes is its
  first 100 bytes followed by \<open>...\<close>. The lengths are those of the buffered \<open>[]byte\<close>.
  So an excerpt has at most 103 bytes, and begins as the body does.
\<close>

theorem bodyExcerpt_boundary:
  "(length (Response_Body r) \<le> 100 \<longrightarrow> bodyExcerpt r = Response_Body r)
   \<and> (length (Response_Body r) > 100 \<longrightarrow> bodyExcerpt r = take 100 (Response_Body r) @ ''...'')
   \<and> length (bodyExcerpt r) \<le> 103
   \<and> take 100 (bodyExcerpt r) = take 100 (Response_Body r)"
  by (simp add: bodyExcerpt_def)

theorem bodyExcerpt_boundary_witness:
  "length (Response_Body (wrapper_409\<lparr>Response_Body := replicate 100 CHR ''x''\<rparr>)) \<le> 100
   \<and> bodyExcerpt (wrapper_409\<lparr>Response_Body := replicate 100 CHR ''x''\<rparr>) = replicate 100 CHR ''x''
   \<and> length (Response_Body (wrapper_409\<lparr>Response_Body := replicate 101 CHR ''x''\<rparr>)) > 100
   \<and> bodyExcerpt (wrapper_409\<lparr>Response_Body := replicate 101 CHR ''x''\<rparr>) =
       replicate 100 CHR ''x'' @ ''...''"
  using bodyExcerpt_boundary [of "wrapper_409\<lparr>Response_Body := replicate 100 CHR ''x''\<rparr>"]
        bodyExcerpt_boundary [of "wrapper_409\<lparr>Response_Body := replicate 101 CHR ''x''\<rparr>"]
  by simp

lemma Status_loop_eq: "Status_loop code statuses ok \<longleftrightarrow> ok \<or> code \<in> set statuses"
  by (induction statuses arbitrary: ok) auto

text \<open>
  C6. \<open>Status\<close> with no expected code reports nothing, whatever the status is; so does
  \<open>Status\<close> when the status is among the expected codes. When the list is not empty and
  the status is not in it, the sink is called exactly once, with a message that contains the
  list as \<open>%v\<close> prints it, the status and the excerpt of the body. The wrapper is returned
  in every case.
\<close>

theorem Status_reports_mismatch_once:
  "(statuses = [] \<longrightarrow> Status statuses r s = (r, s))
   \<and> (StatusCode (http_res r) \<in> set statuses \<longrightarrow> Status statuses r s = (r, s))
   \<and> (statuses \<noteq> [] \<and> StatusCode (http_res r) \<notin> set statuses \<longrightarrow>
        (\<exists>msg. Status statuses r s = (r, s\<lparr>world := Response_onError r msg (world s)\<rparr>)
           \<and> sublist (fmt_v statuses) msg
           \<and> sublist (fmt_d (StatusCode (http_res r))) msg
           \<and> sublist (bodyExcerpt r) msg))"
proof (intro conjI impI)
  assume "statuses \<noteq> [] \<and> StatusCode (http_res r) \<notin> set statuses"
  then have ne: "statuses \<noteq> []" and no: "StatusCode (http_res r) \<notin> set statuses" by simp_all
  let ?pre = "req_Method (Response_req r) @ '' '' @ req_URL (Response_req r) @ '': ''"
  let ?msg = "?pre @ ''expected status '' @ fmt_v statuses @ '' got '' @
              fmt_d (StatusCode (http_res r)) @ '': '' @ bodyExcerpt r"
  have "Status statuses r s = (r, s\<lparr>world := Response_onError r ?msg (world s)\<rparr>)"
    using ne no by (simp add: Status_def Status_loop_eq Response_err_def)
  moreover have "sublist (fmt_v statuses) ?msg"
    by (rule sublist_between [where ps = "?pre @ ''expected status ''"
          and ss = "'' got '' @ fmt_d (StatusCode (http_res r)) @ '': '' @ bodyExcerpt r"]) simp
  moreover have "sublist (fmt_d (StatusCode (http_res r))) ?msg"
    by (rule sublist_between [where ps = "?pre @ ''expected status '' @ fmt_v statuses @ '' got ''"
          and ss = "'': '' @ bodyExcerpt r"]) simp
  moreover have "sublist (bodyExcerpt r) ?msg"
    by (rule sublist_between [where ps = "?pre @ ''expected status '' @ fmt_v statuses @ '' got '' @
          fmt_d (StatusCode (http_res r)) @ '': ''" and ss = "[]"]) simp
  ultimately show "\<exists>msg. Status statuses r s = (r, s\<lparr>world := Response_onError r msg (world s)\<rparr>)
           \<and> sublist (fmt_v statuses) msg
           \<and> sublist (fmt_d (StatusCode (http_res r))) msg
           \<and> sublist (bodyExcerpt r) msg"
    by blast
qed (simp_all add: Status_def Status_loop_eq)

lemma fmt_examples:
  "fmt_d 409 = ''409''" "fmt_v [200, 201] = ''[200 201]''"
  by (simp_all add: fmt_v_def fmt_d_def fmt_nat.simps digit_def)

theorem Status_reports_mismatch_once_witness:
  "Status [] wrapper_409 state0 = (wrapper_409, state0)
   \<and> 409 \<in> set [409 :: int] \<and> Status [409] wrapper_409 state0 = (wrapper_409, state0)
   \<and> [200, 201] \<noteq> [] \<and> StatusCode (http_res wrapper_409) \<notin> set [200, 201]
   \<and> Status [200, 201] wrapper_409 state0 =
       (wrapper_409,
        state0\<lparr>world := [''onError GET http://example.test/: expected status [200 201] got 409: {}'']\<rparr>)"
  using Status_reports_mismatch_once [of "[]" wrapper_409 state0]
        Status_reports_mismatch_once [of "[409]" wrapper_409 state0]
        Status_reports_mismatch_once [of "[200, 201]" wrapper_409 state0]
  by (simp add: Status_def Response_err_def wrapper_409_def response_409_def request_GET_def
      state0_def sink_def bodyExcerpt_def fmt_examples)

text \<open>
  C5. \<open>JSON\<close> on the response reports a \<open>Content-Type\<close> that does not begin with
  \<open>application/json\<close> and decodes the buffered body all the same. When the decoding
  succeeds the filled target is returned, after a reported mismatch too; when it fails the
  error is reported (after the mismatch, if there was one) and \<open>nil\<close> is returned.
\<close>

theorem Response_JSON_reports_and_decodes:
  "(\<not> prefix ''application/json'' (Header_Get canon ''Content-Type'' (res_Header (http_res r)))
      \<and> Unmarshal (Response_Body r) j = Inr j' \<longrightarrow>
      Response_JSON Unmarshal canon j r s =
        (Some j',
         Response_err r (''Content-Type is not application/json, got '' @
           Header_Get canon ''Content-Type'' (res_Header (http_res r)) @ '': '' @ bodyExcerpt r) s))
   \<and> (prefix ''application/json'' (Header_Get canon ''Content-Type'' (res_Header (http_res r)))
      \<and> Unmarshal (Response_Body r) j = Inr j' \<longrightarrow>
      Response_JSON Unmarshal canon j r s = (Some j', s))
   \<and> (\<not> prefix ''application/json'' (Header_Get canon ''Content-Type'' (res_Header (http_res r)))
      \<and> Unmarshal (Response_Body r) j = Inl err \<longrightarrow>
      Response_JSON Unmarshal canon j r s =
        (None,
         Response_err r err
           (Response_err r (''Content-Type is not application/json, got '' @
              Header_Get canon ''Content-Type'' (res_Header (http_res r)) @ '': '' @ bodyExcerpt r) s)))
   \<and> (prefix ''application/json'' (Header_Get canon ''Content-Type'' (res_Header (http_res r)))
      \<and> Unmarshal (Response_Body r) j = Inl err \<longrightarrow>
      Response_JSON Unmarshal canon j r s = (None, Response_err r err s))"
  by (simp add: Response_JSON_def)

theorem Response_JSON_reports_and_decodes_witness:
  "\<not> prefix ''application/json'' (Header_Get same_key ''Content-Type'' (res_Header (http_res wrapper_409)))
   \<and> Unmarshal_braces (Response_Body wrapper_409) () = Inr ()
   \<and> Response_JSON Unmarshal_braces same_key () wrapper_409 state0 =
       (Some (),
        state0\<lparr>world := [''onError GET http://example.test/: Content-Type is not application/json, got text/plain: {}'']\<rparr>)"
  using Response_JSON_reports_and_decodes
          [of same_key wrapper_409 Unmarshal_braces "()" "()" state0]
  by (simp add: Response_err_def wrapper_409_def response_409_def request_GET_def
      state0_def sink_def bodyExcerpt_def Unmarshal_braces_def Header_Get_def same_key_def)

section \<open>Execution\<close>

lemma NewRequestWithContext_send:
  "NewRequestWithContext (n\<lparr>send := d\<rparr>) c m u rd = NewRequestWithContext n c m u rd"
  by (simp add: NewRequestWithContext_def Let_def split: option.splits)

lemma Do_request_send: "Do_request (n\<lparr>send := d\<rparr>) b = Do_request n b"
  by (simp add: Do_request_def NewRequestWithContext_send Let_def split: sum.splits)

lemma client_Do_send:
  "client_Do (n\<lparr>send := \<lambda>p'. send n p\<rparr>) q rq w = client_Do n p rq w"
  by (simp add: client_Do_def url_Error_def split: prod.splits sent.splits)

lemma Do_dispatch_policy:
  "client_CheckRedirect (snd (Do_dispatch n b rq s)) = client_CheckRedirect s"
  by (simp add: Do_dispatch_def report_def NewResponse_def Let_def
      split: prod.splits dispatch.splits sum.splits option.splits)

lemma Do_policy: "client_CheckRedirect (snd (Do n b s)) = client_CheckRedirect s"
  by (simp add: Do_def report_def Do_dispatch_policy split: sum.splits)

lemma Do_dispatch_sees:
  "Do_dispatch n b rq s =
     Do_dispatch (n\<lparr>send := \<lambda>p. send n (if noFollow b then UseLastResponse else client_CheckRedirect s)\<rparr>) b rq s"
  by (simp add: Do_dispatch_def client_Do_send)

lemma Do_sees:
  "Do n b s =
     Do (n\<lparr>send := \<lambda>p. send n (if noFollow b then UseLastResponse else client_CheckRedirect s)\<rparr>) b s"
  unfolding Do_def Do_request_send
  by (rule sum.case_cong [OF refl refl]) (rule Do_dispatch_sees)

lemma Do_request_GET_x:
  assumes "baseURL b = ''http://example.test''" "url b = ''/x''" "http_method b = ''GET''"
    "query b = []" "headers b = []" "body b = None" "ctx b = None"
  shows "Do_request (net_of t) b =
     Inr \<lparr>req_Method = ''GET'', req_URL = ''http://example.test/x'', req_Header = [],
          req_Host = ''example.test'', req_Body = None, req_Context = Background\<rparr>"
  using assms
  by (simp add: Do_request_def NewRequestWithContext_def NewRequest_body_def net_of_def
      Header_Get_def)

lemma Do_GET_x_409:
  "snd (Do (net_of transport_409) (GET_x\<lparr>noFollow := f\<rparr>) s) =
     s\<lparr>world := world s @ [''dispatch '' @ (if f then ''no-follow'' else policy_name (client_CheckRedirect s))]\<rparr>"
proof -
  have rq: "Do_request (net_of transport_409) (GET_x\<lparr>noFollow := f\<rparr>) =
     Inr \<lparr>req_Method = ''GET'', req_URL = ''http://example.test/x'', req_Header = [],
          req_Host = ''example.test'', req_Body = None, req_Context = Background\<rparr>"
    by (rule Do_request_GET_x) (simp_all add: GET_x_simps)
  show ?thesis
    unfolding Do_def rq
    by (simp add: GET_x_simps Do_dispatch_def client_Do_def net_of_def transport_409_def
        NewResponse_def response_409_def policy_name_def)
qed

lemma Do_GET_x_refused:
  "Do (net_of transport_refused) (GET_x\<lparr>noFollow := f, afterRequest := a\<rparr>) s =
     (None, s\<lparr>world := sink (''Get '' @ Quote_plain ''http://example.test/x'' @ '': connection refused'')
        ((case a of None \<Rightarrow> (\<lambda>w. w)
          | Some g \<Rightarrow> g \<lparr>req_Method = ''GET'', req_URL = ''http://example.test/x'', req_Header = [],
               req_Host = ''example.test'', req_Body = None, req_Context = Background\<rparr> None
               (Some (''Get '' @ Quote_plain ''http://example.test/x'' @ '': connection refused'')))
         (world s @ [''dispatch '' @ (if f then ''no-follow'' else policy_name (client_CheckRedirect s))]))\<rparr>)"
proof -
  have rq: "Do_request (net_of transport_refused) (GET_x\<lparr>noFollow := f, afterRequest := a\<rparr>) =
     Inr \<lparr>req_Method = ''GET'', req_URL = ''http://example.test/x'', req_Header = [],
          req_Host = ''example.test'', req_Body = None, req_Context = Background\<rparr>"
    by (rule Do_request_GET_x) (simp_all add: GET_x_simps)
  show ?thesis
    unfolding Do_def rq
    by (cases a)
       (simp_all add: GET_x_simps Do_dispatch_def client_Do_def url_Error_def urlErrorOp_GET
        net_of_def transport_refused_def report_def policy_name_def)
qed

text \<open>
  C3. \<open>Do\<close> leaves the redirect policy of the client as it found it, whether the dispatch
  succeeds or fails (and also when \<open>Do\<close> returns before the dispatch). With \<open>noFollow\<close> the
  policy is replaced for the dispatch: the request is sent under the policy that returns
  \<open>http.ErrUseLastResponse\<close>. A later \<open>Do\<close> without \<open>noFollow\<close>, on the state that the first
  one leaves, sends its request under the policy the client had before the first one.
\<close>

theorem Do_restores_CheckRedirect:
  "client_CheckRedirect (snd (Do n b s)) = client_CheckRedirect s
   \<and> (noFollow b \<longrightarrow> Do n b s = Do (n\<lparr>send := \<lambda>p. send n UseLastResponse\<rparr>) b s)
   \<and> (\<not> noFollow b2 \<longrightarrow>
        Do n b2 (snd (Do n b s)) =
          Do (n\<lparr>send := \<lambda>p. send n (client_CheckRedirect s)\<rparr>) b2 (snd (Do n b s)))"
proof (intro conjI impI)
  show "client_CheckRedirect (snd (Do n b s)) = client_CheckRedirect s"
    by (rule Do_policy)
next
  assume "noFollow b"
  then show "Do n b s = Do (n\<lparr>send := \<lambda>p. send n UseLastResponse\<rparr>) b s"
    using Do_sees [of n b s] by simp
next
  assume "\<not> noFollow b2"
  then show "Do n b2 (snd (Do n b s)) =
          Do (n\<lparr>send := \<lambda>p. send n (client_CheckRedirect s)\<rparr>) b2 (snd (Do n b s))"
    using Do_sees [of n b2 "snd (Do n b s)"] by (simp add: Do_policy)
qed

theorem Do_restores_CheckRedirect_witness:
  "noFollow (fst (NoFollow GET_x state0)) \<and> \<not> noFollow GET_x
   \<and> client_CheckRedirect (snd (Do (net_of transport_409) (fst (NoFollow GET_x state0)) state0)) =
       NilCheckRedirect
   \<and> snd (Do (net_of transport_409) (fst (NoFollow GET_x state0)) state0) =
       state0\<lparr>world := [''dispatch no-follow'']\<rparr>
   \<and> snd (Do (net_of transport_409) GET_x
            (snd (Do (net_of transport_409) (fst (NoFollow GET_x state0)) state0))) =
       state0\<lparr>world := [''dispatch no-follow'', ''dispatch follow'']\<rparr>
   \<and> snd (Do (net_of transport_409) GET_x
            (snd (Do (net_of transport_refused) (fst (NoFollow GET_x state0)) state0))) =
       state0\<lparr>world := [''dispatch no-follow'',
          ''onError Get '' @ Quote_plain ''http://example.test/x'' @ '': connection refused'',
          ''dispatch follow'']\<rparr>"
proof -
  have nf: "fst (NoFollow GET_x state0) = GET_x\<lparr>noFollow := True\<rparr>"
    by (simp add: NoFollow_def)
  have g: "GET_x = GET_x\<lparr>noFollow := False\<rparr>"
    by (simp add: GET_x_simps)
  have r: "GET_x\<lparr>noFollow := True\<rparr> = GET_x\<lparr>noFollow := True, afterRequest := None\<rparr>"
    by (simp add: GET_x_simps)
  have a: "snd (Do (net_of transport_409) GET_x s) =
             s\<lparr>world := world s @ [''dispatch '' @ policy_name (client_CheckRedirect s)]\<rparr>" for s
    using Do_GET_x_409 [where f = False and s = s] g by simp
  have p: "client_CheckRedirect (snd (Do (net_of transport_409) (fst (NoFollow GET_x state0)) state0)) =
           client_CheckRedirect state0"
    using Do_restores_CheckRedirect [of "net_of transport_409" "fst (NoFollow GET_x state0)" state0 GET_x]
    by blast
  have 1: "noFollow (fst (NoFollow GET_x state0)) \<and> \<not> noFollow GET_x"
    by (simp add: GET_x_simps)
  have 2: "snd (Do (net_of transport_409) (fst (NoFollow GET_x state0)) state0) =
       state0\<lparr>world := [''dispatch no-follow'']\<rparr>"
    unfolding nf by (simp add: Do_GET_x_409 [where f = True] state0_def)
  have 3: "snd (Do (net_of transport_409) GET_x
            (snd (Do (net_of transport_409) (fst (NoFollow GET_x state0)) state0))) =
       state0\<lparr>world := [''dispatch no-follow'', ''dispatch follow'']\<rparr>"
    unfolding 2 by (simp add: a state0_def policy_name_def)
  have 4: "snd (Do (net_of transport_409) GET_x
            (snd (Do (net_of transport_refused) (fst (NoFollow GET_x state0)) state0))) =
       state0\<lparr>world := [''dispatch no-follow'',
          ''onError Get '' @ Quote_plain ''http://example.test/x'' @ '': connection refused'',
          ''dispatch follow'']\<rparr>"
    unfolding nf
    by (simp add: a Do_GET_x_refused [where f = True and a = None, folded r]
        state0_def policy_name_def sink_def)
  from p have "client_CheckRedirect (snd (Do (net_of transport_409) (fst (NoFollow GET_x state0)) state0)) =
       NilCheckRedirect"
    by (simp add: state0_def)
  with 1 2 3 4 show ?thesis by blast
qed

text \<open>
  C8. When the request was built and the dispatch fails, the after hook, if set, runs with
  the request (as the before hook left it), the response that came with the error, if any,
  and the error; then the error is reported to the sink exactly once, and \<open>Do\<close> returns
  \<open>nil\<close>. \<open>Do\<close> passes the error of \<open>client.Do\<close> on as it is: the context in the message is
  the one of the \<open>*url.Error\<close> that the client returns, the operation made of the method of
  the request, and the quoted URL of the request that failed, in front of the cause.
\<close>

theorem Do_failure_runs_hook_reports_returns_nil:
  assumes "Do_request n b = Inr rq"
    and "(case beforeRequest b of None \<Rightarrow> (rq, world s) | Some f \<Rightarrow> f rq (world s)) = (rq', wb)"
    and "send n (if noFollow b then UseLastResponse else client_CheckRedirect s) rq' wb =
           (SendFailed res u cause, wd)"
  shows "\<exists>msg. Do n b s =
           (None, s\<lparr>world := onError b msg
                     (case afterRequest b of None \<Rightarrow> wd | Some g \<Rightarrow> g rq' res (Some msg) wd)\<rparr>)
         \<and> msg = urlErrorOp (req_Method rq') @ '' '' @ Quote n u @ '': '' @ cause
         \<and> sublist (urlErrorOp (req_Method rq')) msg
         \<and> sublist (Quote n u) msg
         \<and> sublist cause msg"
proof -
  let ?msg = "urlErrorOp (req_Method rq') @ '' '' @ Quote n u @ '': '' @ cause"
  have c: "client_Do n (if noFollow b then UseLastResponse else client_CheckRedirect s) rq' wb =
        (Failed res ?msg, wd)"
    using assms(3) by (simp add: client_Do_def url_Error_def)
  have "Do n b s =
           (None, s\<lparr>world := onError b ?msg
                     (case afterRequest b of None \<Rightarrow> wd | Some g \<Rightarrow> g rq' res (Some ?msg) wd)\<rparr>)"
    using assms(1,2) c
    by (cases "noFollow b")
       (simp_all add: Do_def Do_dispatch_def report_def Let_def cong: option.case_cong)
  moreover have "sublist (urlErrorOp (req_Method rq')) ?msg"
    by (rule sublist_between [where ps = "[]" and ss = "'' '' @ Quote n u @ '': '' @ cause"]) simp
  moreover have "sublist (Quote n u) ?msg"
    by (rule sublist_between [where ps = "urlErrorOp (req_Method rq') @ '' ''"
          and ss = "'': '' @ cause"]) simp
  moreover have "sublist cause ?msg"
    by (rule sublist_between [where ps = "urlErrorOp (req_Method rq') @ '' '' @ Quote n u @ '': ''"
          and ss = "[]"]) simp
  ultimately show ?thesis by blast
qed

theorem Do_failure_runs_hook_reports_returns_nil_witness:
  "Do_request (net_of transport_refused) (GET_x\<lparr>afterRequest := Some after_log\<rparr>) =
      Inr \<lparr>req_Method = ''GET'', req_URL = ''http://example.test/x'', req_Header = [],
           req_Host = ''example.test'', req_Body = None, req_Context = Background\<rparr>
   \<and> Do (net_of transport_refused) (GET_x\<lparr>afterRequest := Some after_log\<rparr>) state0 =
       (None, state0\<lparr>world := [''dispatch follow'',
          ''after GET http://example.test/x Get '' @ Quote_plain ''http://example.test/x'' @
            '': connection refused'',
          ''onError Get '' @ Quote_plain ''http://example.test/x'' @ '': connection refused'']\<rparr>)"
proof -
  let ?b = "GET_x\<lparr>afterRequest := Some after_log\<rparr>"
  let ?rq = "\<lparr>req_Method = ''GET'', req_URL = ''http://example.test/x'', req_Header = [],
           req_Host = ''example.test'', req_Body = None, req_Context = Background\<rparr> :: (unit, unit) Request"
  have 1: "Do_request (net_of transport_refused) ?b = Inr ?rq"
    by (rule Do_request_GET_x) (simp_all add: GET_x_simps)
  have 2: "(case beforeRequest ?b of None \<Rightarrow> (?rq, world state0) | Some f \<Rightarrow> f ?rq (world state0)) =
           (?rq, [])"
    by (simp add: GET_x_simps state0_def)
  have 3: "send (net_of transport_refused)
             (if noFollow ?b then UseLastResponse else client_CheckRedirect state0) ?rq [] =
           (SendFailed None ''http://example.test/x'' ''connection refused'', [''dispatch follow''])"
    by (simp add: GET_x_simps state0_def net_of_def transport_refused_def policy_name_def)
  obtain msg where d: "Do (net_of transport_refused) ?b state0 =
           (None, state0\<lparr>world := onError ?b msg
                     (case afterRequest ?b of None \<Rightarrow> [''dispatch follow'']
                      | Some g \<Rightarrow> g ?rq None (Some msg) [''dispatch follow''])\<rparr>)"
    and m: "msg = urlErrorOp (req_Method ?rq) @ '' '' @ Quote (net_of transport_refused)
              ''http://example.test/x'' @ '': '' @ ''connection refused''"
    using Do_failure_runs_hook_reports_returns_nil [OF 1 2 3] by blast
  have m': "msg = ''Get '' @ Quote_plain ''http://example.test/x'' @ '': connection refused''"
    unfolding m by (simp add: urlErrorOp_GET net_of_def)
  have "Do (net_of transport_refused) ?b state0 =
       (None, state0\<lparr>world := [''dispatch follow'',
          ''after GET http://example.test/x Get '' @ Quote_plain ''http://example.test/x'' @
            '': connection refused'',
          ''onError Get '' @ Quote_plain ''http://example.test/x'' @ '': connection refused'']\<rparr>)"
    unfolding d m' by (simp add: after_log_def sink_def GET_x_simps)
  with 1 show ?thesis by blast
qed

section \<open>The multipart producer\<close>






end
